theory Spec2Isabelle
  imports Main
begin

section \<open>Values, exceptions and the outside world\<close>

text \<open>
  The three servers (\<^verbatim>\<open>gov_uk_acronyms\<close>, \<^verbatim>\<open>gov_uk_search\<close>, \<^verbatim>\<open>wikipedia\<close>) receive a decoded
  JSON-RPC request whose \<^verbatim>\<open>params\<close> is an arbitrary JSON object. A JSON value is modelled
  with Python's view of it: \<^verbatim>\<open>None\<close>, \<^verbatim>\<open>bool\<close>, \<^verbatim>\<open>int\<close>, \<^verbatim>\<open>str\<close>, \<^verbatim>\<open>list\<close>, \<^verbatim>\<open>dict\<close>. A \<^verbatim>\<open>dict\<close> is an
  association list (insertion order matters for the acronym table); a lookup takes the
  first entry of a key. Numbers are integers: floating-point numbers are outside the
  model. Strings are byte strings; the case and whitespace operations below are those of
  Python on ASCII text.
\<close>

datatype json =
    JNull
  | JBool bool
  | JInt int
  | JStr string
  | JList "json list"
  | JObj "(string \<times> json) list"

text \<open>
  Exceptions are values. Every class below is a subclass of Python's \<^verbatim>\<open>Exception\<close>;
  \<^verbatim>\<open>RequestException\<close> stands for \<^verbatim>\<open>requests.RequestException\<close> and all of its subclasses,
  \<^verbatim>\<open>OtherException\<close> for any further subclass of \<^verbatim>\<open>Exception\<close> a library raises. Signals that
  derive from \<^verbatim>\<open>BaseException\<close> only (\<^verbatim>\<open>KeyboardInterrupt\<close>, \<^verbatim>\<open>SystemExit\<close>) are not raised by the
  lookups and are not modelled.
\<close>

datatype exn_class =
    RequestException
  | AttributeError
  | TypeError
  | KeyError
  | IndexError
  | OtherException

datatype py_exn = PyExn exn_class string

datatype except_clause = ExceptRequestException | ExceptException

fun isinstance :: "py_exn \<Rightarrow> except_clause \<Rightarrow> bool" where
  "isinstance (PyExn c m) ExceptRequestException = (c = RequestException)"
| "isinstance (PyExn c m) ExceptException = True"

fun str_exn :: "py_exn \<Rightarrow> string" where
  "str_exn (PyExn c m) = m"

text \<open>The object \<^verbatim>\<open>requests.get\<close> returns, as far as the code reads it.\<close>

record http_response =
  raise_for_status :: "py_exn option"
  resp_text :: string
  resp_json :: "py_exn + json"

text \<open>
  Everything the code calls outside of the repository: the HTTP client, the Wikipedia
  client, the four regular-expression searches, \<^verbatim>\<open>json.dumps(_, indent=2)\<close> on a list of
  strings, and \<^verbatim>\<open>repr\<close> on a string, list or dict. The HTTP client is given the URL and
  the query parameters; the fixed headers and timeouts are left out.
\<close>

record world =
  requests_get :: "string \<Rightarrow> (string \<times> json) list \<Rightarrow> py_exn + http_response"
  re_findall_th :: "string \<Rightarrow> string list"
  re_findall_td :: "string \<Rightarrow> string list"
  re_search_main :: "string \<Rightarrow> string option"
  re_search_main_fallback :: "string \<Rightarrow> string option"
  json_dumps :: "string list \<Rightarrow> string"
  wikipedia_search :: "json \<Rightarrow> py_exn + string list"
  wikipedia_page_content :: "json \<Rightarrow> py_exn + string"
  wikipedia_summary :: "json \<Rightarrow> py_exn + string"
  py_repr :: "json \<Rightarrow> string"

section \<open>Python built-ins used by the code\<close>

fun truthy :: "json \<Rightarrow> bool" where
  "truthy JNull = False"
| "truthy (JBool b) = b"
| "truthy (JInt i) = (i \<noteq> 0)"
| "truthy (JStr s) = (s \<noteq> [])"
| "truthy (JList xs) = (xs \<noteq> [])"
| "truthy (JObj kvs) = (kvs \<noteq> [])"

fun type_name :: "json \<Rightarrow> string" where
  "type_name JNull = ''NoneType''"
| "type_name (JBool b) = ''bool''"
| "type_name (JInt i) = ''int''"
| "type_name (JStr s) = ''str''"
| "type_name (JList xs) = ''list''"
| "type_name (JObj kvs) = ''dict''"

definition no_attribute :: "json \<Rightarrow> string \<Rightarrow> py_exn" where
  "no_attribute v a =
     PyExn AttributeError
       ([CHR 0x27] @ type_name v @ [CHR 0x27] @ '' object has no attribute ''
          @ [CHR 0x27] @ a @ [CHR 0x27])"

definition digit_char :: "nat \<Rightarrow> char" where
  "digit_char d = char_of (48 + d)"

function str_nat :: "nat \<Rightarrow> string" where
  "str_nat n = (if n < 10 then [digit_char n] else str_nat (n div 10) @ [digit_char (n mod 10)])"
  by pat_completeness auto
termination
  by (relation "measure (\<lambda>n. n)") auto

declare str_nat.simps [simp del]

definition str_int :: "int \<Rightarrow> string" where
  "str_int i = (if i < 0 then CHR ''-'' # str_nat (nat (- i)) else str_nat (nat i))"

text \<open>\<^verbatim>\<open>str(v)\<close>, which an f-string applies to the value it renders.\<close>

fun py_str :: "world \<Rightarrow> json \<Rightarrow> string" where
  "py_str w JNull = ''None''"
| "py_str w (JBool b) = (if b then ''True'' else ''False'')"
| "py_str w (JInt i) = str_int i"
| "py_str w (JStr s) = s"
| "py_str w (JList xs) = py_repr w (JList xs)"
| "py_str w (JObj kvs) = py_repr w (JObj kvs)"

text \<open>\<^verbatim>\<open>v.get(key, default)\<close>: only a dict has the method.\<close>

fun py_get :: "json \<Rightarrow> string \<Rightarrow> json \<Rightarrow> py_exn + json" where
  "py_get (JObj kvs) k d = Inr (case map_of kvs k of None \<Rightarrow> d | Some v \<Rightarrow> v)"
| "py_get v k d = Inl (no_attribute v ''get'')"

text \<open>\<^verbatim>\<open>d.get(key, default)\<close> on a value known to be a dict.\<close>

definition dict_get :: "(string \<times> json) list \<Rightarrow> string \<Rightarrow> json \<Rightarrow> json" where
  "dict_get kvs k d = (case map_of kvs k of None \<Rightarrow> d | Some v \<Rightarrow> v)"

section \<open>Requests and responses\<close>

text \<open>
  Modelled from the spec: the types \<^verbatim>\<open>JSONRPCRequest\<close>, \<^verbatim>\<open>JSONRPCResponse\<close>, \<^verbatim>\<open>JSONRPCError\<close> and
  \<^verbatim>\<open>ErrorData\<close> and the constants \<^verbatim>\<open>INVALID_PARAMS\<close> and \<^verbatim>\<open>INTERNAL_ERROR\<close> are imported from
  \<^verbatim>\<open>mcp.types\<close>, which is not part of the repository. The request is
  \<^verbatim>\<open>{jsonrpc, id: string|number|null, method: string, params: optional mapping}\<close>; the codes
  are \<^verbatim>\<open>-32602\<close> and \<^verbatim>\<open>-32603\<close>.
\<close>

datatype request_id = IdNull | IdInt int | IdStr string

record jsonrpc_request =
  jsonrpc :: string
  req_id :: request_id
  req_method :: string
  params :: "(string \<times> json) list option"

datatype error_data = ErrorData int string

datatype jsonrpc_message =
    JSONRPCResponse string json request_id
  | JSONRPCError string error_data request_id

definition INVALID_PARAMS :: int where
  "INVALID_PARAMS = - 32602"

definition INTERNAL_ERROR :: int where
  "INTERNAL_ERROR = - 32603"

text \<open>\<^verbatim>\<open>not request.params\<close>: true of \<^verbatim>\<open>None\<close> and of the empty dict.\<close>

fun not_params :: "(string \<times> json) list option \<Rightarrow> bool" where
  "not_params None = True"
| "not_params (Some kvs) = (kvs = [])"

fun params_dict :: "(string \<times> json) list option \<Rightarrow> (string \<times> json) list" where
  "params_dict None = []"
| "params_dict (Some kvs) = kvs"

text \<open>The result object of a successful \<^verbatim>\<open>tools/call\<close>, literally the same in the three servers.\<close>

definition call_result :: "string \<Rightarrow> json" where
  "call_result result =
     JObj [(''content'', JList [JObj [(''type'', JStr ''text''), (''text'', JStr result)]]),
           (''structuredContent'', JObj [(''result'', JStr result)]),
           (''isError'', JBool False)]"

definition initialize_result :: "string \<Rightarrow> json" where
  "initialize_result server_name =
     JObj [(''protocolVersion'', JStr ''2024-11-05''),
           (''capabilities'', JObj [(''tools'', JObj [])]),
           (''serverInfo'', JObj [(''name'', JStr server_name), (''version'', JStr ''1.0.0'')])]"

text \<open>One entry of a \<^verbatim>\<open>tools/list\<close> answer; the servers write each entry out in full.\<close>

definition tool_descriptor ::
  "string \<Rightarrow> string \<Rightarrow> string \<Rightarrow> string \<Rightarrow> string \<Rightarrow> string \<Rightarrow> json" where
  "tool_descriptor name description param param_title param_description result_description =
     JObj [(''name'', JStr name),
           (''description'', JStr description),
           (''inputSchema'',
              JObj [(''type'', JStr ''object''),
                    (''properties'',
                       JObj [(param,
                                JObj [(''type'', JStr ''string''),
                                      (''title'', JStr param_title),
                                      (''description'', JStr param_description)])]),
                    (''required'', JList [JStr param]),
                    (''title'', JStr (name @ ''Arguments''))]),
           (''outputSchema'',
              JObj [(''type'', JStr ''object''),
                    (''properties'',
                       JObj [(''result'',
                                JObj [(''type'', JStr ''string''),
                                      (''title'', JStr ''Result''),
                                      (''description'', JStr result_description)])]),
                    (''required'', JList [JStr ''result'']),
                    (''title'', JStr (name @ ''Output''))])]"

section \<open>String and dict operations on ASCII text\<close>

definition isspace :: "char \<Rightarrow> bool" where
  "isspace c = (let n = (of_char c :: nat) in (9 \<le> n \<and> n \<le> 13) \<or> (28 \<le> n \<and> n \<le> 32))"

definition strip :: "string \<Rightarrow> string" where
  "strip s = rev (dropWhile isspace (rev (dropWhile isspace s)))"

definition upper_char :: "char \<Rightarrow> char" where
  "upper_char c =
     (let n = (of_char c :: nat) in if 97 \<le> n \<and> n \<le> 122 then char_of (n - 32) else c)"

definition upper :: "string \<Rightarrow> string" where
  "upper s = map upper_char s"

definition startswith :: "string \<Rightarrow> string \<Rightarrow> bool" where
  "startswith s p = (take (length p) s = p)"

text \<open>\<^verbatim>\<open>a in b\<close> on two strings.\<close>

fun contains :: "string \<Rightarrow> string \<Rightarrow> bool" where
  "contains [] a = (a = [])"
| "contains (c # b) a = (startswith (c # b) a \<or> contains b a)"

text \<open>\<^verbatim>\<open>sep.join(parts)\<close>.\<close>

fun join :: "string \<Rightarrow> string list \<Rightarrow> string" where
  "join sep [] = []"
| "join sep [p] = p"
| "join sep (p # q # ps) = p @ sep @ join sep (q # ps)"

text \<open>
  \<^verbatim>\<open>d[k] = v\<close> on an insertion-ordered dict: an existing key keeps its place, a new
  key goes to the end.
\<close>

fun dict_set :: "('k \<times> 'v) list \<Rightarrow> 'k \<Rightarrow> 'v \<Rightarrow> ('k \<times> 'v) list" where
  "dict_set [] k v = [(k, v)]"
| "dict_set ((k', v') # kvs) k v =
     (if k' = k then (k, v) # kvs else (k', v') # dict_set kvs k v)"

text \<open>\<^verbatim>\<open>d[k]\<close>, which raises \<^verbatim>\<open>KeyError\<close> on a missing key.\<close>

definition dict_getitem :: "(string \<times> 'v) list \<Rightarrow> string \<Rightarrow> py_exn + 'v" where
  "dict_getitem kvs k =
     (case map_of kvs k of
        None \<Rightarrow> Inl (PyExn KeyError ([CHR 0x27] @ k @ [CHR 0x27]))
      | Some v \<Rightarrow> Inr v)"

text \<open>\<^verbatim>\<open>[f(x) for x in xs]\<close> where \<^verbatim>\<open>f\<close> may raise: the first exception ends the loop.\<close>

fun map_raise :: "('a \<Rightarrow> py_exn + 'b) \<Rightarrow> 'a list \<Rightarrow> py_exn + 'b list" where
  "map_raise f [] = Inr []"
| "map_raise f (x # xs) =
     (case f x of
        Inl e \<Rightarrow> Inl e
      | Inr y \<Rightarrow> (case map_raise f xs of Inl e \<Rightarrow> Inl e | Inr ys \<Rightarrow> Inr (y # ys)))"

section \<open>The acronym server\<close>

subsection \<open>\<^verbatim>\<open>search_gov_uk_acronyms\<close>\<close>

record acronym_row =
  acronym :: string
  meaning :: string
  definition_text :: string
  department :: string
  team :: string

definition ITEMS_PER_ROW :: nat where
  "ITEMS_PER_ROW = 4"

text \<open>
  The loop \<^verbatim>\<open>for index, acro in enumerate(acronyms)\<close>. The guard keeps every read of
  \<^verbatim>\<open>info\<close> in range, so the \<^verbatim>\<open>except IndexError\<close> of the source is never entered.
\<close>

fun acronyms_loop ::
  "nat \<Rightarrow> string list \<Rightarrow> string list \<Rightarrow> (string \<times> acronym_row) list
     \<Rightarrow> (string \<times> acronym_row) list" where
  "acronyms_loop index [] info data = data"
| "acronyms_loop index (acro # rest) info data =
     acronyms_loop (Suc index) rest info
       (if index * ITEMS_PER_ROW + 3 < length info
        then dict_set data (upper acro)
               \<lparr>acronym = acro,
                meaning = strip (info ! (index * ITEMS_PER_ROW)),
                definition_text = strip (info ! (index * ITEMS_PER_ROW + 1)),
                department = strip (info ! (index * ITEMS_PER_ROW + 2)),
                team = strip (info ! (index * ITEMS_PER_ROW + 3))\<rparr>
        else data)"

text \<open>\<^verbatim>\<open>acronym.upper()\<close>: only a \<^verbatim>\<open>str\<close> has the method.\<close>

fun py_upper :: "json \<Rightarrow> py_exn + string" where
  "py_upper (JStr s) = Inr (upper s)"
| "py_upper v = Inl (no_attribute v ''upper'')"

definition match_line :: "(string \<times> acronym_row) list \<Rightarrow> string \<Rightarrow> py_exn + string" where
  "match_line data m =
     (case dict_getitem data m of
        Inl e \<Rightarrow> Inl e
      | Inr match_data \<Rightarrow> Inr (acronym match_data @ '': '' @ meaning match_data))"

definition response_parts :: "acronym_row \<Rightarrow> string list" where
  "response_parts m =
     [acronym m @ '' stands for '' @ meaning m @ ''.'']
     @ (if definition_text m \<noteq> [] then [''Definition: '' @ definition_text m] else [])
     @ (if department m \<noteq> [] then [''Department: '' @ department m] else [])
     @ (if team m \<noteq> [] then [''Team: '' @ team m] else [])"

text \<open>The body of the \<^verbatim>\<open>try\<close> block: \<^verbatim>\<open>Inl\<close> is an exception that leaves it.\<close>

definition search_gov_uk_acronyms_try :: "world \<Rightarrow> json \<Rightarrow> py_exn + string" where
  "search_gov_uk_acronyms_try w acronym_arg =
     (case requests_get w ''https://acronyms.toolsforcivilservants.co.uk'' [] of
        Inl e \<Rightarrow> Inl e
      | Inr response \<Rightarrow>
     (case raise_for_status response of
        Some e \<Rightarrow> Inl e
      | None \<Rightarrow>
     (let html = resp_text response;
          acronyms = map strip (re_findall_th w html);
          info = map strip (re_findall_td w html);
          data = acronyms_loop 0 acronyms info []
      in
     (case py_upper acronym_arg of
        Inl e \<Rightarrow> Inl e
      | Inr acronym_upper \<Rightarrow>
     (if acronym_upper \<notin> set (map fst data) then
        (let partial_matches =
               filter (\<lambda>key. contains key acronym_upper \<or> contains acronym_upper key)
                 (map fst data)
         in if partial_matches \<noteq> [] then
              (case map_raise (match_line data) (take 3 partial_matches) of
                 Inl e \<Rightarrow> Inl e
               | Inr matches_info \<Rightarrow>
                   Inr (''No exact match found for '' @ [CHR 0x27] @ py_str w acronym_arg
                        @ [CHR 0x27] @ ''. Similar acronyms:'' @ [CHR 0x0A]
                        @ join [CHR 0x0A] matches_info))
            else
              Inr (''No definition found for acronym '' @ [CHR 0x27] @ py_str w acronym_arg
                   @ [CHR 0x27] @ ''. The acronym may not be in the UK government database.''))
      else
        (case dict_getitem data acronym_upper of
           Inl e \<Rightarrow> Inl e
         | Inr m \<Rightarrow> Inr (join '' '' (response_parts m))))))))"

text \<open>
  The function with its two \<^verbatim>\<open>except\<close> clauses, tried in the order of the source. An
  exception neither clause matches would leave the function.
\<close>

definition search_gov_uk_acronyms :: "world \<Rightarrow> json \<Rightarrow> py_exn + string" where
  "search_gov_uk_acronyms w acronym_arg =
     (case search_gov_uk_acronyms_try w acronym_arg of
        Inr s \<Rightarrow> Inr s
      | Inl e \<Rightarrow>
          if isinstance e ExceptRequestException then
            Inr (''Error fetching data from UK government acronyms database: '' @ str_exn e)
          else if isinstance e ExceptException then
            Inr (''Error processing acronym lookup: '' @ str_exn e)
          else Inl e)"

subsection \<open>\<^verbatim>\<open>GovUKAcronymsRequestHandler.handle_request\<close>\<close>

definition acronyms_tools :: "json list" where
  "acronyms_tools =
     [tool_descriptor ''search_gov_uk_acronym''
        ''Search for the meaning of UK government acronyms''
        ''acronym'' ''Acronym'' ''The acronym to search for (e.g., DfE, HMRC, NHS)''
        ''The meaning and details of the acronym'']"

definition acronyms_tools_call :: "world \<Rightarrow> jsonrpc_request \<Rightarrow> py_exn + jsonrpc_message" where
  "acronyms_tools_call w request =
     (if not_params (params request) then
        Inr (JSONRPCError ''2.0'' (ErrorData INVALID_PARAMS ''Missing parameters'')
               (req_id request))
      else
        (let tool_name = dict_get (params_dict (params request)) ''name'' JNull in
         if tool_name \<noteq> JStr ''search_gov_uk_acronym'' then
           Inr (JSONRPCError ''2.0''
                  (ErrorData INVALID_PARAMS (''Unknown tool: '' @ py_str w tool_name))
                  (req_id request))
         else
           (let arguments = dict_get (params_dict (params request)) ''arguments'' (JObj []) in
            case py_get arguments ''acronym'' JNull of
              Inl e \<Rightarrow> Inl e
            | Inr acronym_arg \<Rightarrow>
                if \<not> truthy acronym_arg then
                  Inr (JSONRPCError ''2.0''
                         (ErrorData INVALID_PARAMS ''acronym parameter is required'')
                         (req_id request))
                else
                  (case search_gov_uk_acronyms w acronym_arg of
                     Inl e \<Rightarrow> Inl e
                   | Inr result \<Rightarrow>
                       Inr (JSONRPCResponse ''2.0'' (call_result result) (req_id request))))))"

text \<open>The body of the handler's \<^verbatim>\<open>try\<close> block.\<close>

definition acronyms_handle_try :: "world \<Rightarrow> jsonrpc_request \<Rightarrow> py_exn + jsonrpc_message" where
  "acronyms_handle_try w request =
     (if req_method request = ''tools/list'' then
        Inr (JSONRPCResponse ''2.0'' (JObj [(''tools'', JList acronyms_tools)]) (req_id request))
      else if req_method request = ''tools/call'' then acronyms_tools_call w request
      else if req_method request = ''initialize'' then
        Inr (JSONRPCResponse ''2.0'' (initialize_result ''gov-uk-acronyms'') (req_id request))
      else if req_method request = ''ping'' then
        Inr (JSONRPCResponse ''2.0'' (JObj []) (req_id request))
      else
        Inr (JSONRPCError ''2.0''
               (ErrorData (- 32601) (''Method not found: '' @ req_method request))
               (req_id request)))"

text \<open>
  The handler. \<^verbatim>\<open>None\<close> is an exception that \<^verbatim>\<open>except Exception\<close> does not catch and that
  reaches the caller, so that no message is returned.
\<close>

definition acronyms_handle_request :: "world \<Rightarrow> jsonrpc_request \<Rightarrow> jsonrpc_message option" where
  "acronyms_handle_request w request =
     (case acronyms_handle_try w request of
        Inr r \<Rightarrow> Some r
      | Inl e \<Rightarrow>
          if isinstance e ExceptException then
            Some (JSONRPCError ''2.0'' (ErrorData INTERNAL_ERROR (str_exn e)) (req_id request))
          else None)"

section \<open>The site-search server\<close>

subsection \<open>\<^verbatim>\<open>extract_body_content\<close>, \<^verbatim>\<open>scrape_url\<close> and \<^verbatim>\<open>search_gov_uk\<close>\<close>

definition extract_body_content :: "world \<Rightarrow> string \<Rightarrow> string" where
  "extract_body_content w html_content =
     (case re_search_main w html_content of
        Some g \<Rightarrow> strip g
      | None \<Rightarrow>
          (case re_search_main_fallback w html_content of
             Some g \<Rightarrow> strip g
           | None \<Rightarrow> html_content))"

definition scrape_url_try :: "world \<Rightarrow> string \<Rightarrow> py_exn + string" where
  "scrape_url_try w url =
     (case requests_get w url [] of
        Inl e \<Rightarrow> Inl e
      | Inr response \<Rightarrow>
          (case raise_for_status response of
             Some e \<Rightarrow> Inl e
           | None \<Rightarrow> Inr (extract_body_content w (resp_text response))))"

definition scrape_url :: "world \<Rightarrow> string \<Rightarrow> py_exn + string" where
  "scrape_url w url =
     (case scrape_url_try w url of
        Inr s \<Rightarrow> Inr s
      | Inl e \<Rightarrow>
          if isinstance e ExceptException then Inr (''Error scraping page: '' @ str_exn e)
          else Inl e)"

text \<open>\<^verbatim>\<open>for x in v\<close>: the items a value yields, or the \<^verbatim>\<open>TypeError\<close> of a value that yields none.\<close>

definition not_iterable :: "json \<Rightarrow> py_exn" where
  "not_iterable v =
     PyExn TypeError ([CHR 0x27] @ type_name v @ [CHR 0x27] @ '' object is not iterable'')"

fun py_iter :: "json \<Rightarrow> py_exn + json list" where
  "py_iter (JList xs) = Inr xs"
| "py_iter (JStr s) = Inr (map (\<lambda>c. JStr [c]) s)"
| "py_iter (JObj kvs) = Inr (map (\<lambda>kv. JStr (fst kv)) kvs)"
| "py_iter v = Inl (not_iterable v)"

text \<open>
  \<^verbatim>\<open>v[key]\<close> with a string key. Only the first equation is reached from
  \<^verbatim>\<open>search_gov_uk\<close>, where the value has answered \<^verbatim>\<open>get\<close> before; the texts of the
  other three are those of CPython 3.10.
\<close>

fun py_getitem :: "json \<Rightarrow> string \<Rightarrow> py_exn + json" where
  "py_getitem (JObj kvs) k = dict_getitem kvs k"
| "py_getitem (JList xs) k =
     Inl (PyExn TypeError ''list indices must be integers or slices, not str'')"
| "py_getitem (JStr s) k = Inl (PyExn TypeError ''string indices must be integers'')"
| "py_getitem v k =
     Inl (PyExn TypeError
            ([CHR 0x27] @ type_name v @ [CHR 0x27] @ '' object is not subscriptable''))"

text \<open>\<^verbatim>\<open>link.startswith("https://")\<close>: only a \<^verbatim>\<open>str\<close> has the method.\<close>

fun py_startswith :: "json \<Rightarrow> string \<Rightarrow> py_exn + bool" where
  "py_startswith (JStr s) p = Inr (startswith s p)"
| "py_startswith v p = Inl (no_attribute v ''startswith'')"

text \<open>The loop that collects \<^verbatim>\<open>urls_to_scrape\<close>; the accumulator is the list built so far.\<close>

fun collect_urls :: "world \<Rightarrow> json list \<Rightarrow> string list \<Rightarrow> py_exn + string list" where
  "collect_urls w [] urls_to_scrape = Inr urls_to_scrape"
| "collect_urls w (result # rest) urls_to_scrape =
     (case py_get result ''link'' (JStr []) of
        Inl e \<Rightarrow> Inl e
      | Inr link \<Rightarrow>
          if \<not> truthy link then collect_urls w rest urls_to_scrape
          else
            (case py_startswith link ''https://'' of
               Inl e \<Rightarrow> Inl e
             | Inr external \<Rightarrow>
                 if \<not> external then
                   collect_urls w rest (urls_to_scrape @ [''https://www.gov.uk'' @ py_str w link])
                 else collect_urls w rest urls_to_scrape))"

definition search_gov_uk_try :: "world \<Rightarrow> json \<Rightarrow> py_exn + string" where
  "search_gov_uk_try w search_term =
     (case requests_get w ''https://www.gov.uk/api/search.json''
             [(''q'', search_term), (''count'', JInt 5), (''fields'', JStr ''link'')] of
        Inl e \<Rightarrow> Inl e
      | Inr response \<Rightarrow>
     (case raise_for_status response of
        Some e \<Rightarrow> Inl e
      | None \<Rightarrow>
     (case resp_json response of
        Inl e \<Rightarrow> Inl e
      | Inr search_data \<Rightarrow>
     (case py_get search_data ''results'' JNull of
        Inl e \<Rightarrow> Inl e
      | Inr found \<Rightarrow>
     (if \<not> truthy found then
        Inr (''No results found for search term: '' @ py_str w search_term)
      else
     (case py_getitem search_data ''results'' of
        Inl e \<Rightarrow> Inl e
      | Inr results \<Rightarrow>
     (case py_iter results of
        Inl e \<Rightarrow> Inl e
      | Inr items \<Rightarrow>
     (case collect_urls w items [] of
        Inl e \<Rightarrow> Inl e
      | Inr urls_to_scrape \<Rightarrow>
     (if urls_to_scrape = [] then
        Inr (''No valid links found in search results for: '' @ py_str w search_term)
      else
     (case map_raise (scrape_url w) urls_to_scrape of
        Inl e \<Rightarrow> Inl e
      | Inr scraped_data \<Rightarrow> Inr (json_dumps w scraped_data)))))))))))"

definition search_gov_uk :: "world \<Rightarrow> json \<Rightarrow> py_exn + string" where
  "search_gov_uk w search_term =
     (case search_gov_uk_try w search_term of
        Inr s \<Rightarrow> Inr s
      | Inl e \<Rightarrow>
          if isinstance e ExceptRequestException then
            Inr (''Error searching gov.uk: '' @ str_exn e)
          else if isinstance e ExceptException then
            Inr (''Error processing search results: '' @ str_exn e)
          else Inl e)"

subsection \<open>\<^verbatim>\<open>GovUKSearchRequestHandler.handle_request\<close>\<close>

definition search_tools :: "json list" where
  "search_tools =
     [tool_descriptor ''search_gov_uk''
        ''Searches the gov.uk website for 5 pages and returns raw HTML body content''
        ''search_term'' ''Search Term'' ''The search term to search for on gov.uk''
        ''JSON string containing scraped content from gov.uk pages'']"

definition search_tools_call :: "world \<Rightarrow> jsonrpc_request \<Rightarrow> py_exn + jsonrpc_message" where
  "search_tools_call w request =
     (if not_params (params request) then
        Inr (JSONRPCError ''2.0'' (ErrorData INVALID_PARAMS ''Missing parameters'')
               (req_id request))
      else
        (let tool_name = dict_get (params_dict (params request)) ''name'' JNull in
         if tool_name \<noteq> JStr ''search_gov_uk'' then
           Inr (JSONRPCError ''2.0''
                  (ErrorData INVALID_PARAMS (''Unknown tool: '' @ py_str w tool_name))
                  (req_id request))
         else
           (let arguments = dict_get (params_dict (params request)) ''arguments'' (JObj []) in
            case py_get arguments ''search_term'' JNull of
              Inl e \<Rightarrow> Inl e
            | Inr search_term \<Rightarrow>
                if \<not> truthy search_term then
                  Inr (JSONRPCError ''2.0''
                         (ErrorData INVALID_PARAMS ''search_term parameter is required'')
                         (req_id request))
                else
                  (case search_gov_uk w search_term of
                     Inl e \<Rightarrow> Inl e
                   | Inr result \<Rightarrow>
                       Inr (JSONRPCResponse ''2.0'' (call_result result) (req_id request))))))"

definition search_handle_try :: "world \<Rightarrow> jsonrpc_request \<Rightarrow> py_exn + jsonrpc_message" where
  "search_handle_try w request =
     (if req_method request = ''tools/list'' then
        Inr (JSONRPCResponse ''2.0'' (JObj [(''tools'', JList search_tools)]) (req_id request))
      else if req_method request = ''tools/call'' then search_tools_call w request
      else if req_method request = ''initialize'' then
        Inr (JSONRPCResponse ''2.0'' (initialize_result ''gov-uk-search'') (req_id request))
      else if req_method request = ''ping'' then
        Inr (JSONRPCResponse ''2.0'' (JObj []) (req_id request))
      else
        Inr (JSONRPCError ''2.0''
               (ErrorData (- 32601) (''Method not found: '' @ req_method request))
               (req_id request)))"

definition search_handle_request :: "world \<Rightarrow> jsonrpc_request \<Rightarrow> jsonrpc_message option" where
  "search_handle_request w request =
     (case search_handle_try w request of
        Inr r \<Rightarrow> Some r
      | Inl e \<Rightarrow>
          if isinstance e ExceptException then
            Some (JSONRPCError ''2.0'' (ErrorData INTERNAL_ERROR (str_exn e)) (req_id request))
          else None)"

section \<open>The Wikipedia server\<close>

subsection \<open>\<^verbatim>\<open>search_for_pages\<close>, \<^verbatim>\<open>get_page_content\<close> and \<^verbatim>\<open>summarise_page\<close>\<close>

definition search_for_pages :: "world \<Rightarrow> json \<Rightarrow> py_exn + string" where
  "search_for_pages w search_term =
     (case wikipedia_search w search_term of
        Inr search_results \<Rightarrow> Inr (py_str w (JList (map JStr search_results)))
      | Inl e \<Rightarrow>
          if isinstance e ExceptException then
            Inr (''Error getting results from wikipedia: '' @ str_exn e)
          else Inl e)"

definition get_page_content :: "world \<Rightarrow> json \<Rightarrow> py_exn + string" where
  "get_page_content w page_title =
     (case wikipedia_page_content w page_title of
        Inr content \<Rightarrow> Inr content
      | Inl e \<Rightarrow>
          if isinstance e ExceptException then
            Inr (''Error getting results from wikipedia: '' @ str_exn e)
          else Inl e)"

definition summarise_page :: "world \<Rightarrow> json \<Rightarrow> py_exn + string" where
  "summarise_page w topic =
     (case wikipedia_summary w topic of
        Inr summary \<Rightarrow> Inr summary
      | Inl e \<Rightarrow>
          if isinstance e ExceptException then
            Inr (''Error getting results from wikipedia: '' @ str_exn e)
          else Inl e)"

subsection \<open>\<^verbatim>\<open>WikipediaRequestHandler.handle_request\<close>\<close>

definition wikipedia_tools :: "json list" where
  "wikipedia_tools =
     [tool_descriptor ''search_for_pages''
        ''Searches wikipedia for relevant pages''
        ''search_term'' ''Search Term'' ''The search term to search for on Wikipedia''
        ''List of Wikipedia page titles matching the search term'',
      tool_descriptor ''get_page_content''
        ''Gets information about a specific page based on page title''
        ''page_title'' ''Page Title'' ''The title of the Wikipedia page to retrieve''
        ''Full content of the Wikipedia page'',
      tool_descriptor ''summarise_page''
        ''Summarises a given wikipedia topic''
        ''topic'' ''Topic'' ''The Wikipedia topic to summarize''
        ''Summary of the Wikipedia topic'']"

text \<open>
  One branch of the \<^verbatim>\<open>if\<close>/\<^verbatim>\<open>elif\<close> chain over the tool name: read the parameter, refuse
  a missing or empty one, run the tool. \<^verbatim>\<open>Inr (Inl m)\<close> is the early \<^verbatim>\<open>return\<close> of an error
  message, \<^verbatim>\<open>Inr (Inr s)\<close> the value bound to \<^verbatim>\<open>result\<close>.
\<close>

definition wikipedia_branch ::
  "jsonrpc_request \<Rightarrow> json \<Rightarrow> string \<Rightarrow> (json \<Rightarrow> py_exn + string)
     \<Rightarrow> py_exn + (jsonrpc_message + string)" where
  "wikipedia_branch request arguments param tool =
     (case py_get arguments param JNull of
        Inl e \<Rightarrow> Inl e
      | Inr v \<Rightarrow>
          if \<not> truthy v then
            Inr (Inl (JSONRPCError ''2.0''
                        (ErrorData INVALID_PARAMS (param @ '' parameter is required''))
                        (req_id request)))
          else
            (case tool v of
               Inl e \<Rightarrow> Inl e
             | Inr result \<Rightarrow> Inr (Inr result)))"

definition wikipedia_tools_call :: "world \<Rightarrow> jsonrpc_request \<Rightarrow> py_exn + jsonrpc_message" where
  "wikipedia_tools_call w request =
     (if not_params (params request) then
        Inr (JSONRPCError ''2.0'' (ErrorData INVALID_PARAMS ''Missing parameters'')
               (req_id request))
      else
        (let tool_name = dict_get (params_dict (params request)) ''name'' JNull;
             arguments = dict_get (params_dict (params request)) ''arguments'' (JObj []);
             outcome =
               (if tool_name = JStr ''search_for_pages'' then
                  wikipedia_branch request arguments ''search_term'' (search_for_pages w)
                else if tool_name = JStr ''get_page_content'' then
                  wikipedia_branch request arguments ''page_title'' (get_page_content w)
                else if tool_name = JStr ''summarise_page'' then
                  wikipedia_branch request arguments ''topic'' (summarise_page w)
                else
                  Inr (Inl (JSONRPCError ''2.0''
                              (ErrorData INVALID_PARAMS (''Unknown tool: '' @ py_str w tool_name))
                              (req_id request))))
         in case outcome of
              Inl e \<Rightarrow> Inl e
            | Inr (Inl early) \<Rightarrow> Inr early
            | Inr (Inr result) \<Rightarrow>
                Inr (JSONRPCResponse ''2.0'' (call_result result) (req_id request))))"

definition wikipedia_handle_try :: "world \<Rightarrow> jsonrpc_request \<Rightarrow> py_exn + jsonrpc_message" where
  "wikipedia_handle_try w request =
     (if req_method request = ''tools/list'' then
        Inr (JSONRPCResponse ''2.0'' (JObj [(''tools'', JList wikipedia_tools)]) (req_id request))
      else if req_method request = ''tools/call'' then wikipedia_tools_call w request
      else if req_method request = ''initialize'' then
        Inr (JSONRPCResponse ''2.0'' (initialize_result ''wikipedia'') (req_id request))
      else if req_method request = ''ping'' then
        Inr (JSONRPCResponse ''2.0'' (JObj []) (req_id request))
      else
        Inr (JSONRPCError ''2.0''
               (ErrorData (- 32601) (''Method not found: '' @ req_method request))
               (req_id request)))"

definition wikipedia_handle_request :: "world \<Rightarrow> jsonrpc_request \<Rightarrow> jsonrpc_message option" where
  "wikipedia_handle_request w request =
     (case wikipedia_handle_try w request of
        Inr r \<Rightarrow> Some r
      | Inl e \<Rightarrow>
          if isinstance e ExceptException then
            Some (JSONRPCError ''2.0'' (ErrorData INTERNAL_ERROR (str_exn e)) (req_id request))
          else None)"

section \<open>The three servers side by side\<close>

datatype server = GovUKAcronyms | GovUKSearch | Wikipedia

fun handle_try :: "server \<Rightarrow> world \<Rightarrow> jsonrpc_request \<Rightarrow> py_exn + jsonrpc_message" where
  "handle_try GovUKAcronyms = acronyms_handle_try"
| "handle_try GovUKSearch = search_handle_try"
| "handle_try Wikipedia = wikipedia_handle_try"

fun handle_request :: "server \<Rightarrow> world \<Rightarrow> jsonrpc_request \<Rightarrow> jsonrpc_message option" where
  "handle_request GovUKAcronyms = acronyms_handle_request"
| "handle_request GovUKSearch = search_handle_request"
| "handle_request Wikipedia = wikipedia_handle_request"

fun tools_list :: "server \<Rightarrow> json list" where
  "tools_list GovUKAcronyms = acronyms_tools"
| "tools_list GovUKSearch = search_tools"
| "tools_list Wikipedia = wikipedia_tools"

fun server_name :: "server \<Rightarrow> string" where
  "server_name GovUKAcronyms = ''gov-uk-acronyms''"
| "server_name GovUKSearch = ''gov-uk-search''"
| "server_name Wikipedia = ''wikipedia''"

text \<open>
  The tools of each server as its \<^verbatim>\<open>tools/call\<close> branch has them: the name the handler
  compares \<^verbatim>\<open>tool_name\<close> with, the parameter it reads from \<^verbatim>\<open>arguments\<close>, and the function
  it calls.
\<close>

fun registry :: "server \<Rightarrow> world \<Rightarrow> (string \<times> string \<times> (json \<Rightarrow> py_exn + string)) list" where
  "registry GovUKAcronyms w = [(''search_gov_uk_acronym'', ''acronym'', search_gov_uk_acronyms w)]"
| "registry GovUKSearch w = [(''search_gov_uk'', ''search_term'', search_gov_uk w)]"
| "registry Wikipedia w =
     [(''search_for_pages'', ''search_term'', search_for_pages w),
      (''get_page_content'', ''page_title'', get_page_content w),
      (''summarise_page'', ''topic'', summarise_page w)]"

text \<open>Reading a \<^verbatim>\<open>tools/list\<close> entry: a member of an object, \<^verbatim>\<open>None\<close> when there is none.\<close>

fun member :: "json \<Rightarrow> string \<Rightarrow> json" where
  "member (JObj kvs) k = dict_get kvs k JNull"
| "member v k = JNull"

definition declared :: "json \<Rightarrow> json \<times> json" where
  "declared d = (member d ''name'', member (member d ''inputSchema'') ''required'')"

text \<open>
  The request passes the checks of \<^verbatim>\<open>tools/call\<close> for the tool \<^verbatim>\<open>tool\<close> with the required
  parameter \<^verbatim>\<open>param\<close>: the params are not empty, the name is the tool's, and
  \<^verbatim>\<open>arguments\<close> holds the value \<^verbatim>\<open>v\<close> for the parameter, which is not empty (not falsy, as
  \<^verbatim>\<open>not v\<close> decides it).
\<close>

definition passes_validation :: "jsonrpc_request \<Rightarrow> string \<Rightarrow> string \<Rightarrow> json \<Rightarrow> bool" where
  "passes_validation request tool param v =
     (req_method request = ''tools/call'' \<and> \<not> not_params (params request)
      \<and> map_of (params_dict (params request)) ''name'' = Some (JStr tool)
      \<and> (case map_of (params_dict (params request)) ''arguments'' of
            Some (JObj args) \<Rightarrow> map_of args param = Some v \<and> truthy v
          | _ \<Rightarrow> False))"

text \<open>
  The required parameter \<^verbatim>\<open>param\<close> is missing from a mapping of arguments: there is no
  entry for it, or the entry is empty (falsy).
\<close>

definition missing_in :: "(string \<times> json) list \<Rightarrow> string \<Rightarrow> bool" where
  "missing_in args param = (case map_of args param of None \<Rightarrow> True | Some v \<Rightarrow> \<not> truthy v)"

section \<open>Two outside worlds for concrete runs\<close>

text \<open>A world in which every lookup answers, with one acronym row and one search hit.\<close>

definition stub_response :: http_response where
  "stub_response =
     \<lparr>raise_for_status = None,
      resp_text = ''<main>VAT</main>'',
      resp_json = Inr (JObj [(''results'', JList [JObj [(''link'', JStr ''/vat-rates'')]])])\<rparr>"

definition stub_world :: world where
  "stub_world =
     \<lparr>requests_get = (\<lambda>url query. Inr stub_response),
      re_findall_th = (\<lambda>html. [''NHS '']),
      re_findall_td = (\<lambda>html. ['' National Health Service'', [], [], []]),
      re_search_main = (\<lambda>html. None),
      re_search_main_fallback = (\<lambda>html. Some '' VAT ''),
      json_dumps = (\<lambda>xs. ''['' @ join '', '' xs @ '']''),
      wikipedia_search = (\<lambda>v. Inr [''Alan Turing'']),
      wikipedia_page_content = (\<lambda>v. Inr ''Alan Mathison Turing was a mathematician.''),
      wikipedia_summary = (\<lambda>v. Inr ''A mathematician.''),
      py_repr = (\<lambda>v. ''[...]'')\<rparr>"

text \<open>A world in which every lookup raises.\<close>

definition offline_world :: world where
  "offline_world =
     \<lparr>requests_get = (\<lambda>url query. Inl (PyExn RequestException ''connection refused'')),
      re_findall_th = (\<lambda>html. []),
      re_findall_td = (\<lambda>html. []),
      re_search_main = (\<lambda>html. None),
      re_search_main_fallback = (\<lambda>html. None),
      json_dumps = (\<lambda>xs. ''[]''),
      wikipedia_search = (\<lambda>v. Inl (PyExn OtherException ''no network'')),
      wikipedia_page_content = (\<lambda>v. Inl (PyExn OtherException ''no network'')),
      wikipedia_summary = (\<lambda>v. Inl (PyExn OtherException ''no network'')),
      py_repr = (\<lambda>v. ''[...]'')\<rparr>"

definition call_request :: "(string \<times> json) list option \<Rightarrow> jsonrpc_request" where
  "call_request ps = \<lparr>jsonrpc = ''2.0'', req_id = IdInt 1, req_method = ''tools/call'', params = ps\<rparr>"

section \<open>Facts shared by the proofs\<close>

lemma isinstance_Exception: "isinstance e ExceptException"
  by (cases e) simp

lemma search_gov_uk_acronyms_returns: "\<exists>s. search_gov_uk_acronyms w v = Inr s"
  by (simp add: search_gov_uk_acronyms_def isinstance_Exception split: sum.split)

lemma scrape_url_returns: "\<exists>s. scrape_url w url = Inr s"
  by (simp add: scrape_url_def isinstance_Exception split: sum.split)

lemma search_gov_uk_returns: "\<exists>s. search_gov_uk w v = Inr s"
  by (simp add: search_gov_uk_def isinstance_Exception split: sum.split)

lemma search_for_pages_returns: "\<exists>s. search_for_pages w v = Inr s"
  by (simp add: search_for_pages_def isinstance_Exception split: sum.split)

lemma get_page_content_returns: "\<exists>s. get_page_content w v = Inr s"
  by (simp add: get_page_content_def isinstance_Exception split: sum.split)

lemma summarise_page_returns: "\<exists>s. summarise_page w v = Inr s"
  by (simp add: summarise_page_def isinstance_Exception split: sum.split)

lemma registry_returns:
  assumes "(tool, param, f) \<in> set (registry srv w)"
  shows "\<exists>s. f v = Inr s"
  using assms
  by (cases srv)
     (auto simp: search_gov_uk_acronyms_returns search_gov_uk_returns search_for_pages_returns
        get_page_content_returns summarise_page_returns)

lemma declared_tools:
  "map declared (tools_list srv) = map (\<lambda>(n, p, f). (JStr n, JList [JStr p])) (registry srv w)"
  by (cases srv)
     (simp_all add: declared_def acronyms_tools_def search_tools_def wikipedia_tools_def
        tool_descriptor_def dict_get_def)

lemma handle_request_catches:
  "handle_request srv w request =
     (case handle_try srv w request of
        Inr r \<Rightarrow> Some r
      | Inl e \<Rightarrow> Some (JSONRPCError ''2.0'' (ErrorData INTERNAL_ERROR (str_exn e)) (req_id request)))"
  by (cases srv)
     (simp_all add: acronyms_handle_request_def search_handle_request_def
        wikipedia_handle_request_def isinstance_Exception split: sum.split)

lemma handle_try_tools_call:
  assumes "req_method request = ''tools/call''"
  shows "acronyms_handle_try w request = acronyms_tools_call w request"
    and "search_handle_try w request = search_tools_call w request"
    and "wikipedia_handle_try w request = wikipedia_tools_call w request"
  using assms
  by (simp_all add: acronyms_handle_try_def search_handle_try_def wikipedia_handle_try_def)

lemma tools_call_valid:
  assumes reg: "(tool, param, f) \<in> set (registry srv w)"
    and ok: "passes_validation request tool param v"
    and res: "f v = Inr s"
  shows "handle_try srv w request = Inr (JSONRPCResponse ''2.0'' (call_result s) (req_id request))"
proof -
  from ok have m: "req_method request = ''tools/call''"
    by (simp add: passes_validation_def)
  from ok obtain ps where ps: "params request = Some ps" "ps \<noteq> []"
    by (cases "params request") (auto simp: passes_validation_def)
  from ok ps have name: "map_of ps ''name'' = Some (JStr tool)"
    by (simp add: passes_validation_def)
  from ok ps obtain args where args: "map_of ps ''arguments'' = Some (JObj args)"
    "map_of args param = Some v" "truthy v"
    by (auto simp: passes_validation_def split: option.splits json.splits)
  show ?thesis
    using reg res args(2,3)
    by (cases srv)
       (auto simp: handle_try_tools_call [OF m] acronyms_tools_call_def search_tools_call_def
          wikipedia_tools_call_def wikipedia_branch_def dict_get_def ps name args(1))
qed


lemma handle_try_shape:
  assumes "handle_try srv w request = Inr m"
  shows "(\<exists>r. m = JSONRPCResponse ''2.0'' r (req_id request))
         \<or> (\<exists>e. m = JSONRPCError ''2.0'' e (req_id request))"
  using assms
  by (cases srv)
     (auto simp: acronyms_handle_try_def search_handle_try_def wikipedia_handle_try_def
        acronyms_tools_call_def search_tools_call_def wikipedia_tools_call_def
        wikipedia_branch_def Let_def
        split: if_splits sum.splits)

section \<open>The claims\<close>

text \<open>
  C1. A \<^verbatim>\<open>tools/call\<close> request that passes validation (params not empty, the name of a
  registered tool, the required argument present and not empty) is answered with a success
  response whose result holds a \<^verbatim>\<open>content\<close> list of the one element
  \<^verbatim>\<open>{type: "text", text: s}\<close>, \<^verbatim>\<open>structuredContent = {result: s}\<close> and \<^verbatim>\<open>isError = false\<close>, where
  \<^verbatim>\<open>s\<close> is the string the tool's function returned.
\<close>

theorem tools_call_returns_adapter_string:
  assumes "(tool, param, f) \<in> set (registry srv w)"
    and "passes_validation request tool param v"
  shows "\<exists>s. f v = Inr s \<and>
           handle_request srv w request =
             Some (JSONRPCResponse ''2.0''
                     (JObj [(''content'', JList [JObj [(''type'', JStr ''text''), (''text'', JStr s)]]),
                            (''structuredContent'', JObj [(''result'', JStr s)]),
                            (''isError'', JBool False)])
                     (req_id request))"
proof -
  from registry_returns [OF assms(1)] obtain s where s: "f v = Inr s" ..
  from tools_call_valid [OF assms s] s show ?thesis
    by (simp add: handle_request_catches call_result_def)
qed

theorem tools_call_returns_adapter_string_witness:
  "(''search_gov_uk_acronym'', ''acronym'', search_gov_uk_acronyms stub_world)
     \<in> set (registry GovUKAcronyms stub_world)
   \<and> passes_validation
       (call_request (Some [(''name'', JStr ''search_gov_uk_acronym''),
                            (''arguments'', JObj [(''acronym'', JStr ''nhs'')])]))
       ''search_gov_uk_acronym'' ''acronym'' (JStr ''nhs'')
   \<and> search_gov_uk_acronyms stub_world (JStr ''nhs'')
       = Inr ''NHS stands for National Health Service.''
   \<and> handle_request GovUKAcronyms stub_world
       (call_request (Some [(''name'', JStr ''search_gov_uk_acronym''),
                            (''arguments'', JObj [(''acronym'', JStr ''nhs'')])]))
       = Some (JSONRPCResponse ''2.0''
                 (JObj [(''content'',
                           JList [JObj [(''type'', JStr ''text''),
                                        (''text'', JStr ''NHS stands for National Health Service.'')]]),
                        (''structuredContent'',
                           JObj [(''result'', JStr ''NHS stands for National Health Service.'')]),
                        (''isError'', JBool False)])
                 (IdInt 1))"
proof -
  have reg: "(''search_gov_uk_acronym'', ''acronym'', search_gov_uk_acronyms stub_world)
               \<in> set (registry GovUKAcronyms stub_world)"
    by simp
  have ok: "passes_validation
              (call_request (Some [(''name'', JStr ''search_gov_uk_acronym''),
                                   (''arguments'', JObj [(''acronym'', JStr ''nhs'')])]))
              ''search_gov_uk_acronym'' ''acronym'' (JStr ''nhs'')"
    by (simp add: passes_validation_def call_request_def)
  have run: "search_gov_uk_acronyms stub_world (JStr ''nhs'')
               = Inr ''NHS stands for National Health Service.''"
    by code_simp
  from tools_call_returns_adapter_string [OF reg ok] run reg ok show ?thesis
    by (simp add: call_request_def)
qed

text \<open>
  C2. Every request, whatever its method, params and id, is answered with exactly one
  message: a \<^verbatim>\<open>JSONRPCResponse\<close> or a \<^verbatim>\<open>JSONRPCError\<close>, not both and not none, with
  \<^verbatim>\<open>jsonrpc = "2.0"\<close> and the id of the request.
\<close>

theorem exactly_one_message:
  "\<exists>m. handle_request srv w request = Some m \<and>
        ((\<exists>r. m = JSONRPCResponse ''2.0'' r (req_id request))
         \<noteq> (\<exists>e. m = JSONRPCError ''2.0'' e (req_id request)))"
proof (cases "handle_try srv w request")
  case (Inl e)
  then show ?thesis
    by (simp add: handle_request_catches)
next
  case (Inr m)
  from handle_try_shape [OF Inr] Inr show ?thesis
    by (auto simp: handle_request_catches)
qed

theorem exactly_one_message_witness:
  "handle_request Wikipedia stub_world
     \<lparr>jsonrpc = ''2.0'', req_id = IdStr ''a'', req_method = ''ping'', params = None\<rparr>
     = Some (JSONRPCResponse ''2.0'' (JObj []) (IdStr ''a''))
   \<and> handle_request Wikipedia stub_world
       \<lparr>jsonrpc = ''2.0'', req_id = IdStr ''a'', req_method = ''pong'', params = None\<rparr>
     = Some (JSONRPCError ''2.0'' (ErrorData (- 32601) ''Method not found: pong'') (IdStr ''a''))"
  using exactly_one_message [of Wikipedia stub_world
      "\<lparr>jsonrpc = ''2.0'', req_id = IdStr ''a'', req_method = ''ping'', params = None\<rparr>"]
  by (simp add: wikipedia_handle_request_def wikipedia_handle_try_def)

text \<open>
  C3. The five tool functions never raise to their caller: whatever the argument and
  whatever the outside world does (answer or raise), each returns a string, and an
  exception raised inside is turned into an error text that ends with the exception's
  message.
\<close>

theorem adapters_never_raise:
  "(\<exists>s. search_gov_uk_acronyms w v = Inr s)
   \<and> (\<exists>s. search_gov_uk w v = Inr s)
   \<and> (\<exists>s. search_for_pages w v = Inr s)
   \<and> (\<exists>s. get_page_content w v = Inr s)
   \<and> (\<exists>s. summarise_page w v = Inr s)
   \<and> (\<forall>e. search_gov_uk_acronyms_try w v = Inl e \<longrightarrow>
          search_gov_uk_acronyms w v =
            Inr ((if isinstance e ExceptRequestException
                  then ''Error fetching data from UK government acronyms database: ''
                  else ''Error processing acronym lookup: '') @ str_exn e))
   \<and> (\<forall>e. search_gov_uk_try w v = Inl e \<longrightarrow>
          search_gov_uk w v =
            Inr ((if isinstance e ExceptRequestException
                  then ''Error searching gov.uk: ''
                  else ''Error processing search results: '') @ str_exn e))
   \<and> (\<forall>e. wikipedia_search w v = Inl e \<longrightarrow>
          search_for_pages w v = Inr (''Error getting results from wikipedia: '' @ str_exn e))
   \<and> (\<forall>e. wikipedia_page_content w v = Inl e \<longrightarrow>
          get_page_content w v = Inr (''Error getting results from wikipedia: '' @ str_exn e))
   \<and> (\<forall>e. wikipedia_summary w v = Inl e \<longrightarrow>
          summarise_page w v = Inr (''Error getting results from wikipedia: '' @ str_exn e))"
proof -
  have "\<forall>e. search_gov_uk_acronyms_try w v = Inl e \<longrightarrow>
          search_gov_uk_acronyms w v =
            Inr ((if isinstance e ExceptRequestException
                  then ''Error fetching data from UK government acronyms database: ''
                  else ''Error processing acronym lookup: '') @ str_exn e)"
    by (simp add: search_gov_uk_acronyms_def isinstance_Exception)
  moreover have "\<forall>e. search_gov_uk_try w v = Inl e \<longrightarrow>
          search_gov_uk w v =
            Inr ((if isinstance e ExceptRequestException
                  then ''Error searching gov.uk: ''
                  else ''Error processing search results: '') @ str_exn e)"
    by (simp add: search_gov_uk_def isinstance_Exception)
  moreover have "\<forall>e. wikipedia_search w v = Inl e \<longrightarrow>
          search_for_pages w v = Inr (''Error getting results from wikipedia: '' @ str_exn e)"
    by (simp add: search_for_pages_def isinstance_Exception)
  moreover have "\<forall>e. wikipedia_page_content w v = Inl e \<longrightarrow>
          get_page_content w v = Inr (''Error getting results from wikipedia: '' @ str_exn e)"
    by (simp add: get_page_content_def isinstance_Exception)
  moreover have "\<forall>e. wikipedia_summary w v = Inl e \<longrightarrow>
          summarise_page w v = Inr (''Error getting results from wikipedia: '' @ str_exn e)"
    by (simp add: summarise_page_def isinstance_Exception)
  ultimately show ?thesis
    using search_gov_uk_acronyms_returns [of w v] search_gov_uk_returns [of w v]
      search_for_pages_returns [of w v] get_page_content_returns [of w v]
      summarise_page_returns [of w v]
    by blast
qed

theorem adapters_never_raise_witness:
  "search_gov_uk_acronyms_try offline_world (JStr ''nhs'')
     = Inl (PyExn RequestException ''connection refused'')
   \<and> search_gov_uk_acronyms offline_world (JStr ''nhs'')
     = Inr ''Error fetching data from UK government acronyms database: connection refused''
   \<and> search_gov_uk_try offline_world (JStr ''vat'')
     = Inl (PyExn RequestException ''connection refused'')
   \<and> search_gov_uk offline_world (JStr ''vat'') = Inr ''Error searching gov.uk: connection refused''
   \<and> wikipedia_search offline_world (JStr ''turing'') = Inl (PyExn OtherException ''no network'')
   \<and> search_for_pages offline_world (JStr ''turing'')
     = Inr ''Error getting results from wikipedia: no network''
   \<and> wikipedia_page_content offline_world (JStr ''turing'') = Inl (PyExn OtherException ''no network'')
   \<and> get_page_content offline_world (JStr ''turing'')
     = Inr ''Error getting results from wikipedia: no network''
   \<and> wikipedia_summary offline_world (JStr ''turing'') = Inl (PyExn OtherException ''no network'')
   \<and> summarise_page offline_world (JStr ''turing'')
     = Inr ''Error getting results from wikipedia: no network''"
proof -
  have a: "search_gov_uk_acronyms_try offline_world (JStr ''nhs'')
             = Inl (PyExn RequestException ''connection refused'')"
    by (simp add: search_gov_uk_acronyms_try_def offline_world_def)
  have b: "search_gov_uk_try offline_world (JStr ''vat'')
             = Inl (PyExn RequestException ''connection refused'')"
    by (simp add: search_gov_uk_try_def offline_world_def)
  have c: "wikipedia_search offline_world (JStr ''turing'') = Inl (PyExn OtherException ''no network'')"
    "wikipedia_page_content offline_world (JStr ''turing'') = Inl (PyExn OtherException ''no network'')"
    "wikipedia_summary offline_world (JStr ''turing'') = Inl (PyExn OtherException ''no network'')"
    by (simp_all add: offline_world_def)
  from adapters_never_raise [of offline_world "JStr ''nhs''"] a
  have a': "search_gov_uk_acronyms offline_world (JStr ''nhs'')
     = Inr ''Error fetching data from UK government acronyms database: connection refused''"
    by simp
  from adapters_never_raise [of offline_world "JStr ''vat''"] b
  have b': "search_gov_uk offline_world (JStr ''vat'') = Inr ''Error searching gov.uk: connection refused''"
    by simp
  from adapters_never_raise [of offline_world "JStr ''turing''"] c
  have c': "search_for_pages offline_world (JStr ''turing'')
     = Inr ''Error getting results from wikipedia: no network''"
    "get_page_content offline_world (JStr ''turing'')
     = Inr ''Error getting results from wikipedia: no network''"
    "summarise_page offline_world (JStr ''turing'')
     = Inr ''Error getting results from wikipedia: no network''"
    by simp_all
  from a b c a' b' c' show ?thesis by simp
qed

text \<open>
  C4. An exception that leaves the body of \<^verbatim>\<open>handle_request\<close> is caught by the handler,
  which answers with an error message of code \<^verbatim>\<open>-32603\<close> (\<^verbatim>\<open>INTERNAL_ERROR\<close>) whose text is
  the exception's message; a message is produced in every such case.
\<close>

theorem uncaught_exception_is_internal_error:
  assumes "handle_try srv w request = Inl e"
  shows "handle_request srv w request =
           Some (JSONRPCError ''2.0'' (ErrorData (- 32603) (str_exn e)) (req_id request))"
  using assms by (simp add: handle_request_catches INTERNAL_ERROR_def)

theorem uncaught_exception_is_internal_error_witness:
  "handle_try GovUKSearch stub_world
     (call_request (Some [(''name'', JStr ''search_gov_uk''), (''arguments'', JList [])]))
     = Inl (PyExn AttributeError
              ([CHR 0x27] @ ''list'' @ [CHR 0x27] @ '' object has no attribute ''
                 @ [CHR 0x27] @ ''get'' @ [CHR 0x27]))
   \<and> handle_request GovUKSearch stub_world
       (call_request (Some [(''name'', JStr ''search_gov_uk''), (''arguments'', JList [])]))
     = Some (JSONRPCError ''2.0''
               (ErrorData (- 32603)
                  ([CHR 0x27] @ ''list'' @ [CHR 0x27] @ '' object has no attribute ''
                     @ [CHR 0x27] @ ''get'' @ [CHR 0x27]))
               (IdInt 1))"
proof -
  have raised: "handle_try GovUKSearch stub_world
     (call_request (Some [(''name'', JStr ''search_gov_uk''), (''arguments'', JList [])]))
     = Inl (PyExn AttributeError
              ([CHR 0x27] @ ''list'' @ [CHR 0x27] @ '' object has no attribute ''
                 @ [CHR 0x27] @ ''get'' @ [CHR 0x27]))"
    by (simp add: search_handle_try_def search_tools_call_def call_request_def dict_get_def
          no_attribute_def)
  from uncaught_exception_is_internal_error [OF raised] raised show ?thesis
    by (simp add: call_request_def)
qed

text \<open>
  C5. A request whose method is none of \<^verbatim>\<open>initialize\<close>, \<^verbatim>\<open>ping\<close>, \<^verbatim>\<open>tools/list\<close> and
  \<^verbatim>\<open>tools/call\<close> is answered with an error message of code \<^verbatim>\<open>-32601\<close> whose text is
  \<^verbatim>\<open>Method not found: \<close> followed by the method.
\<close>

theorem unknown_method_not_found:
  assumes "req_method request \<notin> {''initialize'', ''ping'', ''tools/list'', ''tools/call''}"
  shows "handle_request srv w request =
           Some (JSONRPCError ''2.0''
                   (ErrorData (- 32601) (''Method not found: '' @ req_method request))
                   (req_id request))"
proof -
  from assms have "handle_try srv w request =
      Inr (JSONRPCError ''2.0''
             (ErrorData (- 32601) (''Method not found: '' @ req_method request))
             (req_id request))"
    by (cases srv)
       (simp_all add: acronyms_handle_try_def search_handle_try_def wikipedia_handle_try_def)
  then show ?thesis
    by (simp add: handle_request_catches)
qed

theorem unknown_method_not_found_witness:
  "''bogus'' \<notin> {''initialize'', ''ping'', ''tools/list'', ''tools/call''}
   \<and> handle_request GovUKAcronyms offline_world
       \<lparr>jsonrpc = ''2.0'', req_id = IdInt 7, req_method = ''bogus'', params = None\<rparr>
     = Some (JSONRPCError ''2.0'' (ErrorData (- 32601) ''Method not found: bogus'') (IdInt 7))"
  using unknown_method_not_found [of
      "\<lparr>jsonrpc = ''2.0'', req_id = IdInt 7, req_method = ''bogus'', params = None\<rparr>"
      GovUKAcronyms offline_world]
  by simp

text \<open>
  C6. A \<^verbatim>\<open>tools/call\<close> request whose params are \<^verbatim>\<open>None\<close> or the empty mapping is answered
  with an error message of code \<^verbatim>\<open>-32602\<close> (\<^verbatim>\<open>INVALID_PARAMS\<close>) and the text
  \<^verbatim>\<open>Missing parameters\<close>.
\<close>

theorem missing_parameters:
  assumes "req_method request = ''tools/call''"
    and "params request = None \<or> params request = Some []"
  shows "handle_request srv w request =
           Some (JSONRPCError ''2.0'' (ErrorData (- 32602) ''Missing parameters'') (req_id request))"
proof -
  from assms(2) have "not_params (params request)"
    by auto
  then have "handle_try srv w request =
      Inr (JSONRPCError ''2.0'' (ErrorData (- 32602) ''Missing parameters'') (req_id request))"
    by (cases srv)
       (simp_all add: handle_try_tools_call [OF assms(1)] acronyms_tools_call_def
          search_tools_call_def wikipedia_tools_call_def INVALID_PARAMS_def)
  then show ?thesis
    by (simp add: handle_request_catches)
qed

theorem missing_parameters_witness:
  "req_method (call_request None) = ''tools/call''
   \<and> req_method (call_request (Some [])) = ''tools/call''
   \<and> handle_request GovUKSearch stub_world (call_request None)
     = Some (JSONRPCError ''2.0'' (ErrorData (- 32602) ''Missing parameters'') (IdInt 1))
   \<and> handle_request Wikipedia stub_world (call_request (Some []))
     = Some (JSONRPCError ''2.0'' (ErrorData (- 32602) ''Missing parameters'') (IdInt 1))"
  using missing_parameters [of "call_request None" GovUKSearch stub_world]
    missing_parameters [of "call_request (Some [])" Wikipedia stub_world]
  by (simp add: call_request_def)

text \<open>
  C7. A \<^verbatim>\<open>tools/call\<close> request with params that are not empty and a \<^verbatim>\<open>name\<close> that is not
  the name of a tool of the server is answered with an error message of code \<^verbatim>\<open>-32602\<close>
  whose text is \<^verbatim>\<open>Unknown tool: \<close> followed by the name as \<^verbatim>\<open>str\<close> renders it (a string
  name is rendered as itself). The comparison is exact: a name that differs in case only
  is unknown.
\<close>

theorem unknown_tool:
  assumes "req_method request = ''tools/call''"
    and "params request = Some ps"
    and "ps \<noteq> []"
    and "map_of ps ''name'' = Some v"
    and "v \<notin> set (map (\<lambda>(n, p, f). JStr n) (registry srv w))"
  shows "handle_request srv w request =
           Some (JSONRPCError ''2.0''
                   (ErrorData (- 32602) (''Unknown tool: '' @ py_str w v))
                   (req_id request))"
proof -
  from assms(2-5) have "handle_try srv w request =
      Inr (JSONRPCError ''2.0''
             (ErrorData (- 32602) (''Unknown tool: '' @ py_str w v))
             (req_id request))"
    by (cases srv)
       (simp_all add: handle_try_tools_call [OF assms(1)] acronyms_tools_call_def
          search_tools_call_def wikipedia_tools_call_def dict_get_def INVALID_PARAMS_def)
  then show ?thesis
    by (simp add: handle_request_catches)
qed

theorem unknown_tool_witness:
  "JStr ''Search_For_Pages'' \<notin> set (map (\<lambda>(n, p, f). JStr n) (registry Wikipedia stub_world))
   \<and> handle_request Wikipedia stub_world
       (call_request (Some [(''name'', JStr ''Search_For_Pages''),
                            (''arguments'', JObj [(''search_term'', JStr ''turing'')])]))
     = Some (JSONRPCError ''2.0'' (ErrorData (- 32602) ''Unknown tool: Search_For_Pages'') (IdInt 1))"
proof -
  have unknown:
    "JStr ''Search_For_Pages'' \<notin> set (map (\<lambda>(n, p, f). JStr n) (registry Wikipedia stub_world))"
    by simp
  have "req_method (call_request (Some [(''name'', JStr ''Search_For_Pages''),
                            (''arguments'', JObj [(''search_term'', JStr ''turing'')])])) = ''tools/call''"
    and "params (call_request (Some [(''name'', JStr ''Search_For_Pages''),
                            (''arguments'', JObj [(''search_term'', JStr ''turing'')])]))
         = Some [(''name'', JStr ''Search_For_Pages''),
                            (''arguments'', JObj [(''search_term'', JStr ''turing'')])]"
    and "[(''name'', JStr ''Search_For_Pages''),
          (''arguments'', JObj [(''search_term'', JStr ''turing'')])] \<noteq> []"
    and "map_of [(''name'', JStr ''Search_For_Pages''),
                 (''arguments'', JObj [(''search_term'', JStr ''turing'')])] ''name''
         = Some (JStr ''Search_For_Pages'')"
    by (simp_all add: call_request_def)
  from unknown_tool [OF this unknown] unknown show ?thesis
    by (simp add: call_request_def)
qed

text \<open>
  The check of the required argument where \<^verbatim>\<open>arguments\<close> is absent or is a mapping. For
  a \<^verbatim>\<open>tools/call\<close> request that names a registered tool, the required parameter is the
  one the tool's \<^verbatim>\<open>inputSchema\<close> declares; when \<^verbatim>\<open>arguments\<close> is absent (it then defaults
  to the empty mapping) or is a mapping, and the parameter is absent from it or empty
  (falsy), the answer is an error message of code \<^verbatim>\<open>-32602\<close> with the text
  \<^verbatim>\<open><parameter> parameter is required\<close>.
\<close>

lemma required_argument_checked_in_mapping:
  assumes "(tool, param, f) \<in> set (registry srv w)"
    and "req_method request = ''tools/call''"
    and "params request = Some ps"
    and "map_of ps ''name'' = Some (JStr tool)"
    and "map_of ps ''arguments'' = None \<and> missing_in [] param
         \<or> (\<exists>args. map_of ps ''arguments'' = Some (JObj args) \<and> missing_in args param)"
  shows "(JStr tool, JList [JStr param]) \<in> set (map declared (tools_list srv))"
    and "handle_request srv w request =
           Some (JSONRPCError ''2.0''
                   (ErrorData (- 32602) (param @ '' parameter is required''))
                   (req_id request))"
proof -
  from assms(1) have "(JStr tool, JList [JStr param])
      \<in> set (map (\<lambda>(n, p, f). (JStr n, JList [JStr p])) (registry srv w))"
    by force
  then show "(JStr tool, JList [JStr param]) \<in> set (map declared (tools_list srv))"
    by (simp only: declared_tools [of srv w])
next
  from assms(4) have ne: "ps \<noteq> []"
    by auto
  from assms(5) obtain args where args: "dict_get ps ''arguments'' (JObj []) = JObj args"
    and miss: "missing_in args param"
    by (auto simp: dict_get_def)
  from miss have falsy: "\<not> truthy (case map_of args param of None \<Rightarrow> JNull | Some v \<Rightarrow> v)"
    by (simp add: missing_in_def split: option.splits)
  from assms(1) falsy have "handle_try srv w request =
      Inr (JSONRPCError ''2.0''
             (ErrorData (- 32602) (param @ '' parameter is required''))
             (req_id request))"
    by (cases srv)
       (auto simp: handle_try_tools_call [OF assms(2)] acronyms_tools_call_def
          search_tools_call_def wikipedia_tools_call_def wikipedia_branch_def
          assms(3) assms(4) ne args INVALID_PARAMS_def
          dict_get_def [of ps "''name''"])
  then show "handle_request srv w request =
      Some (JSONRPCError ''2.0''
              (ErrorData (- 32602) (param @ '' parameter is required''))
              (req_id request))"
    by (simp add: handle_request_catches)
qed

lemma required_argument_checked_in_mapping_example:
  "handle_request Wikipedia stub_world
     (call_request (Some [(''name'', JStr ''get_page_content'')]))
     = Some (JSONRPCError ''2.0'' (ErrorData (- 32602) ''page_title parameter is required'') (IdInt 1))
   \<and> handle_request Wikipedia stub_world
       (call_request (Some [(''name'', JStr ''get_page_content''),
                            (''arguments'', JObj [(''page_title'', JStr [])])]))
     = Some (JSONRPCError ''2.0'' (ErrorData (- 32602) ''page_title parameter is required'') (IdInt 1))"
proof -
  have reg: "(''get_page_content'', ''page_title'', get_page_content stub_world)
               \<in> set (registry Wikipedia stub_world)"
    by simp
  have m: "req_method (call_request ps) = ''tools/call''" for ps
    by (simp add: call_request_def)
  have p: "params (call_request (Some ps)) = Some ps" for ps
    by (simp add: call_request_def)
  have absent: "handle_request Wikipedia stub_world
       (call_request (Some [(''name'', JStr ''get_page_content'')]))
     = Some (JSONRPCError ''2.0'' (ErrorData (- 32602) ''page_title parameter is required'') (IdInt 1))"
    using required_argument_checked_in_mapping(2)
            [OF reg m p, of "[(''name'', JStr ''get_page_content'')]"]
    by (simp add: call_request_def missing_in_def)
  have empty: "handle_request Wikipedia stub_world
       (call_request (Some [(''name'', JStr ''get_page_content''),
                            (''arguments'', JObj [(''page_title'', JStr [])])]))
     = Some (JSONRPCError ''2.0'' (ErrorData (- 32602) ''page_title parameter is required'') (IdInt 1))"
    using required_argument_checked_in_mapping(2)
            [OF reg m p, of "[(''name'', JStr ''get_page_content''),
                              (''arguments'', JObj [(''page_title'', JStr [])])]"]
    by (simp add: call_request_def missing_in_def)
  from absent empty show ?thesis
    by simp
qed

text \<open>
  C8. For a \<^verbatim>\<open>tools/call\<close> request that names a registered tool and whose required
  parameter is absent from \<^verbatim>\<open>arguments\<close>, the answer should be an error message of code
  \<^verbatim>\<open>-32602\<close> that names the parameter, \<^verbatim>\<open>arguments\<close> defaulting to the empty mapping. The
  code does so when the key \<^verbatim>\<open>arguments\<close> is absent, and misses the case of an explicit
  \<^verbatim>\<open>null\<close>: the default of \<^verbatim>\<open>params.get("arguments", {})\<close> is not taken,
  \<^verbatim>\<open>arguments.get\<close> raises, and each of the three handlers answers with code \<^verbatim>\<open>-32603\<close>
  and the text of the \<^verbatim>\<open>AttributeError\<close>.
\<close>

theorem null_arguments_skip_required_check:
  "handle_request GovUKAcronyms stub_world
     (call_request (Some [(''name'', JStr ''search_gov_uk_acronym'')]))
     = Some (JSONRPCError ''2.0'' (ErrorData (- 32602) ''acronym parameter is required'') (IdInt 1))
   \<and> handle_request GovUKAcronyms stub_world
       (call_request (Some [(''name'', JStr ''search_gov_uk_acronym''), (''arguments'', JNull)]))
     = Some (JSONRPCError ''2.0''
               (ErrorData (- 32603)
                  ([CHR 0x27] @ ''NoneType'' @ [CHR 0x27] @ '' object has no attribute ''
                     @ [CHR 0x27] @ ''get'' @ [CHR 0x27]))
               (IdInt 1))
   \<and> handle_request GovUKSearch stub_world
       (call_request (Some [(''name'', JStr ''search_gov_uk''), (''arguments'', JNull)]))
     = Some (JSONRPCError ''2.0''
               (ErrorData (- 32603)
                  ([CHR 0x27] @ ''NoneType'' @ [CHR 0x27] @ '' object has no attribute ''
                     @ [CHR 0x27] @ ''get'' @ [CHR 0x27]))
               (IdInt 1))
   \<and> handle_request Wikipedia stub_world
       (call_request (Some [(''name'', JStr ''summarise_page''), (''arguments'', JNull)]))
     = Some (JSONRPCError ''2.0''
               (ErrorData (- 32603)
                  ([CHR 0x27] @ ''NoneType'' @ [CHR 0x27] @ '' object has no attribute ''
                     @ [CHR 0x27] @ ''get'' @ [CHR 0x27]))
               (IdInt 1))"
  by (simp add: acronyms_handle_request_def acronyms_handle_try_def acronyms_tools_call_def
        search_handle_request_def search_handle_try_def search_tools_call_def
        wikipedia_handle_request_def wikipedia_handle_try_def wikipedia_tools_call_def
        wikipedia_branch_def call_request_def dict_get_def no_attribute_def
        INTERNAL_ERROR_def INVALID_PARAMS_def)

text \<open>
  C9. A request with the method \<^verbatim>\<open>initialize\<close> or \<^verbatim>\<open>ping\<close> succeeds whatever its params
  are (\<^verbatim>\<open>None\<close> included), and the answer does not depend on them: \<^verbatim>\<open>initialize\<close> returns
  the protocol version, the capabilities \<^verbatim>\<open>{tools: {}}\<close> and the server's name and version,
  \<^verbatim>\<open>ping\<close> returns the empty object.
\<close>

theorem initialize_and_ping_ignore_params:
  "(req_method request = ''initialize'' \<longrightarrow>
      handle_request srv w (request\<lparr>params := p\<rparr>) =
        Some (JSONRPCResponse ''2.0''
                (JObj [(''protocolVersion'', JStr ''2024-11-05''),
                       (''capabilities'', JObj [(''tools'', JObj [])]),
                       (''serverInfo'',
                          JObj [(''name'', JStr (server_name srv)), (''version'', JStr ''1.0.0'')])])
                (req_id request)))
   \<and> (req_method request = ''ping'' \<longrightarrow>
      handle_request srv w (request\<lparr>params := p\<rparr>) =
        Some (JSONRPCResponse ''2.0'' (JObj []) (req_id request)))"
  by (cases srv)
     (simp_all add: acronyms_handle_request_def search_handle_request_def
        wikipedia_handle_request_def acronyms_handle_try_def search_handle_try_def
        wikipedia_handle_try_def initialize_result_def)

theorem initialize_and_ping_ignore_params_witness:
  "handle_request GovUKAcronyms offline_world
     \<lparr>jsonrpc = ''2.0'', req_id = IdInt 0, req_method = ''initialize'', params = None\<rparr>
     = Some (JSONRPCResponse ''2.0''
               (JObj [(''protocolVersion'', JStr ''2024-11-05''),
                      (''capabilities'', JObj [(''tools'', JObj [])]),
                      (''serverInfo'',
                         JObj [(''name'', JStr ''gov-uk-acronyms''), (''version'', JStr ''1.0.0'')])])
               (IdInt 0))
   \<and> handle_request Wikipedia offline_world
       \<lparr>jsonrpc = ''2.0'', req_id = IdNull, req_method = ''ping'', params = None\<rparr>
     = Some (JSONRPCResponse ''2.0'' (JObj []) IdNull)"
  using initialize_and_ping_ignore_params [of
      "\<lparr>jsonrpc = ''2.0'', req_id = IdInt 0, req_method = ''initialize'', params = None\<rparr>"
      GovUKAcronyms offline_world None]
    initialize_and_ping_ignore_params [of
      "\<lparr>jsonrpc = ''2.0'', req_id = IdNull, req_method = ''ping'', params = None\<rparr>"
      Wikipedia offline_world None]
  by simp

text \<open>
  C10. A \<^verbatim>\<open>tools/call\<close> request whose params are not empty and hold no \<^verbatim>\<open>name\<close> is
  answered through the unknown-tool branch: an error message of code \<^verbatim>\<open>-32602\<close> with the
  text \<^verbatim>\<open>Unknown tool: None\<close>.
\<close>

theorem missing_name_is_unknown_tool_None:
  assumes "req_method request = ''tools/call''"
    and "params request = Some ps"
    and "ps \<noteq> []"
    and "map_of ps ''name'' = None"
  shows "handle_request srv w request =
           Some (JSONRPCError ''2.0'' (ErrorData (- 32602) ''Unknown tool: None'') (req_id request))"
proof -
  from assms(2-4) have "handle_try srv w request =
      Inr (JSONRPCError ''2.0'' (ErrorData (- 32602) ''Unknown tool: None'') (req_id request))"
    by (cases srv)
       (simp_all add: handle_try_tools_call [OF assms(1)] acronyms_tools_call_def
          search_tools_call_def wikipedia_tools_call_def dict_get_def INVALID_PARAMS_def)
  then show ?thesis
    by (simp add: handle_request_catches)
qed

theorem missing_name_is_unknown_tool_None_witness:
  "map_of [(''arguments'', JObj [(''acronym'', JStr ''nhs'')])] ''name'' = None
   \<and> handle_request GovUKAcronyms stub_world
       (call_request (Some [(''arguments'', JObj [(''acronym'', JStr ''nhs'')])]))
     = Some (JSONRPCError ''2.0'' (ErrorData (- 32602) ''Unknown tool: None'') (IdInt 1))"
proof -
  have "req_method (call_request (Some [(''arguments'', JObj [(''acronym'', JStr ''nhs'')])]))
          = ''tools/call''"
    and "params (call_request (Some [(''arguments'', JObj [(''acronym'', JStr ''nhs'')])]))
          = Some [(''arguments'', JObj [(''acronym'', JStr ''nhs'')])]"
    and "[(''arguments'', JObj [(''acronym'', JStr ''nhs'')])] \<noteq> []"
    and "map_of [(''arguments'', JObj [(''acronym'', JStr ''nhs'')])] ''name'' = None"
    by (simp_all add: call_request_def)
  from missing_name_is_unknown_tool_None [OF this, of GovUKAcronyms stub_world] show ?thesis
    by (simp add: call_request_def)
qed

end
